theory Spec2Isabelle
  imports Complex_Main "HOL-Library.Word"
begin

section \<open>Voice-activity-gated audio capture: the useAudioRecorder hook\<close>

text \<open>
  A shallow embedding of \<^verbatim>\<open>src/hooks/use-audio.ts\<close> (the hook \<^verbatim>\<open>useAudioRecorder\<close>),
  of the entry of its consumer \<^verbatim>\<open>processAudio\<close> and of the settings presets of the page.

  Conventions of the model.
  \<^item> The React state cells and refs of the hook are the fields of one record; every
    callback of the hook is a function from that record to the updated record.
  \<^item> A callback runs in the closure of the latest render, so it reads the current values
    of the state cells; a state setter takes effect when the callback returns. No
    callback of the hook reads a state cell after setting it.
  \<^item> What the hook does to the outside world (permission request, device release,
    recorder start and stop, call of the consumer, rejection handed to the caller) is
    appended to the field \<open>effects\<close>, in program order.
  \<^item> What the platform decides (permission granted or not, supported MIME types, whether
    a suspended context resumes) is a parameter of type \<open>platform\<close>. Constructors of
    the Web Audio and MediaRecorder objects are taken to succeed.
  \<^item> An \<^verbatim>\<open>async\<close> function is one step, except where the hook awaits the consumer in
    \<^verbatim>\<open>recorder.onstop\<close>: that handler is split at the await.
  \<^item> JavaScript numbers are modelled by exact reals extended with \<^verbatim>\<open>-Infinity\<close> and
    \<^verbatim>\<open>NaN\<close>; rounding of doubles is not modelled.
\<close>

subsection \<open>JavaScript numbers as far as the loudness computation needs them\<close>

datatype js_number = NaN | NegInfinity | Finite real

text \<open>\<^verbatim>\<open>Math.log10(x)\<close>: \<^verbatim>\<open>NaN\<close> below zero, \<^verbatim>\<open>-Infinity\<close> at zero.\<close>

definition Math_log10 :: "real \<Rightarrow> js_number" where
  "Math_log10 x = (if x < 0 then NaN else if x = 0 then NegInfinity else Finite (log 10 x))"

text \<open>\<^verbatim>\<open>c * v\<close> for a positive finite constant \<open>c\<close> (here 20).\<close>

fun js_times :: "real \<Rightarrow> js_number \<Rightarrow> js_number" where
  "js_times c NaN = NaN"
| "js_times c NegInfinity = NegInfinity"
| "js_times c (Finite y) = Finite (c * y)"

text \<open>\<^verbatim>\<open>v < t\<close> for a finite \<open>t\<close>: every comparison with \<^verbatim>\<open>NaN\<close> is false.\<close>

fun js_less :: "js_number \<Rightarrow> real \<Rightarrow> bool" where
  "js_less NaN t = False"
| "js_less NegInfinity t = True"
| "js_less (Finite x) t = (x < t)"

subsection \<open>Loudness of one frame (detectSilence, lines 199 to 204)\<close>

text \<open>
  \<^verbatim>\<open>dataArray.reduce((a, b) => a + b) / dataArray.length\<close> on a \<^verbatim>\<open>Uint8Array\<close>:
  \<^verbatim>\<open>reduce\<close> without initial value throws a TypeError on an empty array (\<open>None\<close>).
\<close>

definition average :: "8 word list \<Rightarrow> real option" where
  "average dataArray =
     (if dataArray = [] then None
      else Some (real (sum_list (map unat dataArray)) / real (length dataArray)))"

text \<open>\<^verbatim>\<open>const dB = 20 * Math.log10(average / 255)\<close>.\<close>

definition dB_of_frame :: "8 word list \<Rightarrow> js_number option" where
  "dB_of_frame dataArray =
     (case average dataArray of
        None \<Rightarrow> None
      | Some a \<Rightarrow> Some (js_times 20 (Math_log10 (a / 255))))"

subsection \<open>Data of the hook\<close>

datatype recorder_state = Inactive | Recording | Paused

record media_recorder =
  rstate :: recorder_state
  mimeType :: string

datatype context_state = Suspended | Running | Closed

datatype media_stream = MediaStream

record analyser_node =
  fftSize :: nat
  minDecibels :: int
  maxDecibels :: int
  smoothingTimeConstant :: real

datatype error = DeviceAcquisitionError | NoSupportedMimeType | ResumeError | TypeError

text \<open>A \<^verbatim>\<open>Blob\<close> is opaque to the hook and to the consumer's entry: only its size is read.\<close>

datatype blob = Blob (blob_size: nat) (blob_type: string)

datatype effect =
    GetUserMedia
  | ContextClosed
  | TracksStopped
  | ContextSuspend
  | ContextResume
  | RecorderStart string nat
  | RecorderStop
  | ConsumerCalled blob
  | Rejected error

text \<open>
  The state cells (\<open>mediaRecorder\<close>, \<open>isRecording\<close>, \<open>isListening\<close>) and refs of the hook,
  lines 14 to 22. \<open>audioChunksRef\<close> holds the sizes of the buffered chunks;
  \<open>silenceTimeoutRef\<close> holds the delay the timer was scheduled with.
\<close>

record hook =
  mediaRecorder :: "media_recorder option"
  isRecording :: bool
  isListening :: bool
  audioChunksRef :: "nat list"
  isProcessingRef :: bool
  streamRef :: "media_stream option"
  analyserRef :: "analyser_node option"
  silenceTimeoutRef :: "nat option"
  audioContextRef :: "context_state option"
  effects :: "effect list"

definition initial :: hook where
  "initial = \<lparr> mediaRecorder = None, isRecording = False, isListening = False,
               audioChunksRef = [], isProcessingRef = False, streamRef = None,
               analyserRef = None, silenceTimeoutRef = None, audioContextRef = None,
               effects = [] \<rparr>"

text \<open>The props the hook destructures (lines 3 to 13).\<close>

record recorder_props =
  silenceThreshold :: real
  silenceTimeout :: nat

text \<open>The settings of the page (\<^verbatim>\<open>VoiceSettings\<close>) and its three presets.\<close>

record voice_settings =
  vs_silenceThreshold :: real
  vs_silenceTimeout :: nat
  vs_smoothingTimeConstant :: real

definition preset_quiet :: voice_settings where
  "preset_quiet = \<lparr> vs_silenceThreshold = -40, vs_silenceTimeout = 800,
                    vs_smoothingTimeConstant = 85 / 100 \<rparr>"

definition preset_moderate :: voice_settings where
  "preset_moderate = \<lparr> vs_silenceThreshold = -30, vs_silenceTimeout = 1000,
                       vs_smoothingTimeConstant = 92 / 100 \<rparr>"

definition preset_noisy :: voice_settings where
  "preset_noisy = \<lparr> vs_silenceThreshold = -25, vs_silenceTimeout = 1200,
                    vs_smoothingTimeConstant = 98 / 100 \<rparr>"

text \<open>
  The page calls the hook with \<^verbatim>\<open>silenceThreshold\<close>, \<^verbatim>\<open>silenceTimeout\<close> and
  \<^verbatim>\<open>smoothingTimeConstant\<close> of its settings; the hook destructures
  \<^verbatim>\<open>{ onRecordingComplete, silenceThreshold = -50, silenceTimeout = 1500 }\<close>
  and nothing else, so the third value does not reach the hook's body.
\<close>

definition useAudioRecorder_props :: "voice_settings \<Rightarrow> recorder_props" where
  "useAudioRecorder_props vs =
     \<lparr> silenceThreshold = vs_silenceThreshold vs, silenceTimeout = vs_silenceTimeout vs \<rparr>"

record platform =
  getUserMedia_ok :: bool
  isTypeSupported :: "string \<Rightarrow> bool"
  resume_ok :: bool

subsection \<open>cleanup (lines 26 to 59)\<close>

text \<open>
  The tracks reached through \<^verbatim>\<open>mediaRecorder?.stream\<close> (line 47) are those of
  \<^verbatim>\<open>streamRef.current\<close>, from which the recorder was built (line 117); they are stopped
  on lines 39 to 45.
\<close>

definition cleanup :: "bool \<Rightarrow> hook \<Rightarrow> hook" where
  "cleanup fullCleanup s =
     (let s1 = s\<lparr> silenceTimeoutRef := None \<rparr>;
          s2 = (if fullCleanup
                then s1\<lparr> audioContextRef := None, streamRef := None, analyserRef := None,
                         effects := effects s1
                           @ (if audioContextRef s1 \<noteq> None then [ContextClosed] else [])
                           @ (if streamRef s1 \<noteq> None then [TracksStopped] else []) \<rparr>
                else s1)
      in s2\<lparr> isRecording := False, mediaRecorder := None, audioChunksRef := [],
              isProcessingRef := False \<rparr>)"

subsection \<open>getSupportedMimeType (lines 61 to 79)\<close>

definition types :: "string list" where
  "types = [''audio/webm;codecs=opus'', ''audio/webm'', ''audio/mp4'', ''audio/aac'',
            ''audio/ogg;codecs=opus'', ''audio/wav'']"

text \<open>\<open>None\<close>: \<^verbatim>\<open>throw new Error('No supported audio MIME type found')\<close>.\<close>

definition getSupportedMimeType :: "platform \<Rightarrow> string option" where
  "getSupportedMimeType pf = find (isTypeSupported pf) types"

subsection \<open>The analysis path built on acquisition (lines 102 to 109 and 279 to 286)\<close>

definition new_analyser :: analyser_node where
  "new_analyser = \<lparr> fftSize = 2048, minDecibels = -90, maxDecibels = -10,
                     smoothingTimeConstant = 85 / 100 \<rparr>"

definition acquire :: "hook \<Rightarrow> hook" where
  "acquire s = s\<lparr> streamRef := Some MediaStream, audioContextRef := Some Running,
                  analyserRef := Some new_analyser \<rparr>"

subsection \<open>startRecording (lines 81 to 170)\<close>

definition startRecording :: "platform \<Rightarrow> hook \<Rightarrow> hook" where
  "startRecording pf s =
     (if isProcessingRef s \<or> isRecording s then s
      else
        let s1 = s\<lparr> isProcessingRef := True \<rparr>;
            needs = (streamRef s1 = None \<or> audioContextRef s1 = None \<or> analyserRef s1 = None);
            s2 = (if needs then s1\<lparr> effects := effects s1 @ [GetUserMedia] \<rparr> else s1)
        in if needs \<and> \<not> getUserMedia_ok pf
           then (let c = cleanup True s2
                 in c\<lparr> effects := effects c @ [Rejected DeviceAcquisitionError] \<rparr>)
           else
             let s3 = (if needs then acquire s2 else s2)
             in (case getSupportedMimeType pf of
                   None \<Rightarrow>
                     (let c = cleanup True s3
                      in c\<lparr> effects := effects c @ [Rejected NoSupportedMimeType] \<rparr>)
                 | Some mt \<Rightarrow>
                     s3\<lparr> effects := effects s3 @ [RecorderStart mt 500],
                         mediaRecorder := Some \<lparr> rstate = Recording, mimeType = mt \<rparr>,
                         isRecording := True,
                         isProcessingRef := False \<rparr>))"

subsection \<open>The recorder's handlers (lines 122 to 156)\<close>

text \<open>\<^verbatim>\<open>recorder.ondataavailable\<close>: a chunk of positive size is pushed.\<close>

definition recorder_ondataavailable :: "nat \<Rightarrow> hook \<Rightarrow> hook" where
  "recorder_ondataavailable sz s =
     (if sz > 0 then s\<lparr> audioChunksRef := audioChunksRef s @ [sz] \<rparr> else s)"

text \<open>
  \<^verbatim>\<open>recorder.onstop\<close> up to the await of the consumer (lines 129 to 139), with the
  \<^verbatim>\<open>mimeType\<close> its closure captured. With no chunk there is no await and the handler
  runs to its end (lines 145 to 150).
\<close>

definition recorder_onstop :: "string \<Rightarrow> hook \<Rightarrow> hook" where
  "recorder_onstop mt s =
     (let s1 = s\<lparr> isRecording := False \<rparr>
      in if length (audioChunksRef s1) > 0
         then s1\<lparr> effects := effects s1
                     @ [ConsumerCalled (Blob (sum_list (audioChunksRef s1)) mt)] \<rparr>
         else cleanup False s1)"

text \<open>
  \<^verbatim>\<open>recorder.onstop\<close> after the consumer's promise settled, fulfilled or rejected
  (lines 140 to 150).
\<close>

definition recorder_onstop_resumed :: "hook \<Rightarrow> hook" where
  "recorder_onstop_resumed s = cleanup False (s\<lparr> audioChunksRef := [] \<rparr>)"

text \<open>\<^verbatim>\<open>recorder.onerror\<close> (lines 153 to 156): the event is logged to the console.\<close>

definition recorder_onerror :: "hook \<Rightarrow> hook" where
  "recorder_onerror s = cleanup True s"

subsection \<open>stopRecording (lines 172 to 190)\<close>

definition stopRecording :: "hook \<Rightarrow> hook" where
  "stopRecording s =
     (if isProcessingRef s then s
      else (case mediaRecorder s of
              None \<Rightarrow> cleanup False s
            | Some r \<Rightarrow>
                if rstate r \<noteq> Inactive
                then s\<lparr> isProcessingRef := True,
                        mediaRecorder := Some (r\<lparr> rstate := Inactive \<rparr>),
                        effects := effects s @ [RecorderStop] \<rparr>
                else cleanup False s))"

subsection \<open>detectSilence (lines 196 to 232)\<close>

text \<open>The gate proper, lines 209 to 231, on the reading \<open>dB\<close>.\<close>

definition gate :: "recorder_props \<Rightarrow> platform \<Rightarrow> js_number \<Rightarrow> hook \<Rightarrow> hook" where
  "gate props pf dB s =
     (if js_less dB (silenceThreshold props)
      then (if silenceTimeoutRef s = None \<and> isRecording s
            then s\<lparr> silenceTimeoutRef := Some (silenceTimeout props) \<rparr>
            else s)
      else
        let s1 = (if silenceTimeoutRef s \<noteq> None then s\<lparr> silenceTimeoutRef := None \<rparr> else s)
        in if \<not> isRecording s1 \<and> isListening s1 then startRecording pf s1 else s1)"

text \<open>
  One tick of the monitoring loop on the frame the analyser delivers. An empty frame
  makes \<^verbatim>\<open>reduce\<close> throw before any state is touched.
\<close>

definition detectSilence :: "recorder_props \<Rightarrow> platform \<Rightarrow> 8 word list \<Rightarrow> hook \<Rightarrow> hook" where
  "detectSilence props pf dataArray s =
     (if analyserRef s = None \<or> \<not> isListening s then s
      else (case dB_of_frame dataArray of
              None \<Rightarrow> s
            | Some dB \<Rightarrow> gate props pf dB s))"

text \<open>
  The callback of the silence timer (lines 213 to 218). Its guard reads the
  \<^verbatim>\<open>isRecording\<close> of the closure that scheduled it, which line 211 found true, and
  \<^verbatim>\<open>recordingStopRef.current\<close>, which every render assigns (line 194); so it calls the
  current \<^verbatim>\<open>stopRecording\<close>. It leaves \<^verbatim>\<open>silenceTimeoutRef.current\<close> as it is.
\<close>

definition silenceTimeout_fired :: "hook \<Rightarrow> hook" where
  "silenceTimeout_fired s = stopRecording s"

text \<open>A run of the gate over a sequence of readings.\<close>

definition gate_run :: "recorder_props \<Rightarrow> platform \<Rightarrow> js_number list \<Rightarrow> hook \<Rightarrow> hook" where
  "gate_run props pf dBs s = foldl (\<lambda>st dB. gate props pf dB st) s dBs"

subsection \<open>startListening (lines 256 to 309)\<close>

definition startListening :: "platform \<Rightarrow> hook \<Rightarrow> hook" where
  "startListening pf s =
     (if streamRef s = None \<or> audioContextRef s = None \<or> analyserRef s = None
      then
        (let s1 = s\<lparr> effects := effects s @ [GetUserMedia] \<rparr>
         in if getUserMedia_ok pf
            then (acquire s1)\<lparr> isListening := True \<rparr>
            else (let c = cleanup True s1
                  in c\<lparr> effects := effects c @ [Rejected DeviceAcquisitionError] \<rparr>))
      else if audioContextRef s = Some Suspended
      then (if resume_ok pf
            then s\<lparr> audioContextRef := Some Running,
                    effects := effects s @ [ContextResume],
                    isListening := True \<rparr>
            else (let c = cleanup True s
                  in c\<lparr> effects := effects c @ [Rejected ResumeError] \<rparr>))
      else s\<lparr> isListening := True \<rparr>)"

subsection \<open>stopListening (lines 311 to 343)\<close>

text \<open>
  \<^verbatim>\<open>createMediaStreamSource(streamRef.current!)\<close> throws a TypeError when the stream is
  null; the state setter before it has been called, the timer is not cleared. The
  source it creates otherwise is new, so disconnecting it changes nothing.
  \<^verbatim>\<open>suspend()\<close> is not awaited: its promise settles later, and the context's
  \<^verbatim>\<open>state\<close> reads \<^verbatim>\<open>'suspended'\<close> only from then on (\<open>context_suspended\<close>).
\<close>

definition stopListening :: "hook \<Rightarrow> hook" where
  "stopListening s =
     (let s1 = (case mediaRecorder s of
                  None \<Rightarrow> s
                | Some r \<Rightarrow>
                    if isRecording s \<and> rstate r \<noteq> Inactive
                    then s\<lparr> mediaRecorder := Some (r\<lparr> rstate := Inactive \<rparr>),
                            effects := effects s @ [RecorderStop] \<rparr>
                    else s);
          s2 = s1\<lparr> isListening := False \<rparr>
      in (case audioContextRef s2 of
            None \<Rightarrow> s2\<lparr> silenceTimeoutRef := None \<rparr>
          | Some c \<Rightarrow>
              if streamRef s2 = None
              then s2\<lparr> effects := effects s2 @ [Rejected TypeError] \<rparr>
              else s2\<lparr> effects := effects s2 @ [ContextSuspend],
                       silenceTimeoutRef := None \<rparr>))"

text \<open>The platform completes a requested suspension.\<close>

definition context_suspended :: "hook \<Rightarrow> hook" where
  "context_suspended s =
     (case audioContextRef s of
        Some Running \<Rightarrow> s\<lparr> audioContextRef := Some Suspended \<rparr>
      | _ \<Rightarrow> s)"

subsection \<open>The consumer's entry: processAudio (page, lines 35 to 59)\<close>

text \<open>
  The state of the page that \<^verbatim>\<open>processAudio\<close> touches before its first await, and
  the sizes of the recordings it has posted to \<^verbatim>\<open>/api/speech\<close>.
\<close>

record page =
  processingRef :: bool
  isProcessing :: bool
  page_error :: "string option"
  posted :: "nat list"

text \<open>
  \<^verbatim>\<open>processAudio\<close> up to its first \<^verbatim>\<open>await fetch('/api/speech', ...)\<close>, which both
  branches of \<^verbatim>\<open>isInitialSetup\<close> reach with the recording as form data.
\<close>

definition processAudio :: "blob \<Rightarrow> page \<Rightarrow> page" where
  "processAudio audioBlob p =
     (if processingRef p then p
      else if blob_size audioBlob < 15000 then p
      else p\<lparr> processingRef := True, isProcessing := True, page_error := None,
              posted := posted p @ [blob_size audioBlob] \<rparr>)"

subsection \<open>Observations on the effect log\<close>

definition consumer_calls :: "hook \<Rightarrow> blob list" where
  "consumer_calls s = [b. ConsumerCalled b \<leftarrow> effects s]"

definition rejections :: "hook \<Rightarrow> error list" where
  "rejections s = [e. Rejected e \<leftarrow> effects s]"

definition permission_requests :: "hook \<Rightarrow> nat" where
  "permission_requests s = length (filter (\<lambda>e. e = GetUserMedia) (effects s))"

definition stop_requests :: "hook \<Rightarrow> nat" where
  "stop_requests s = length (filter (\<lambda>e. e = RecorderStop) (effects s))"

text \<open>The recorder held in the state cell is in a state other than \<^verbatim>\<open>'inactive'\<close>.\<close>

definition recorder_active :: "hook \<Rightarrow> bool" where
  "recorder_active s =
     (case mediaRecorder s of None \<Rightarrow> False | Some r \<Rightarrow> rstate r \<noteq> Inactive)"

subsection \<open>States reached when recordings are started by the gate only\<close>

text \<open>
  Every operation and handler of the hook may run at any time, except that
  \<^verbatim>\<open>startRecording\<close> is called by \<^verbatim>\<open>detectSilence\<close> only.
\<close>

inductive gated :: "hook \<Rightarrow> bool" where
  gated_initial: "gated initial"
| gated_startListening: "gated s \<Longrightarrow> gated (startListening pf s)"
| gated_stopListening: "gated s \<Longrightarrow> gated (stopListening s)"
| gated_detectSilence: "gated s \<Longrightarrow> gated (detectSilence props pf dataArray s)"
| gated_timeout: "gated s \<Longrightarrow> gated (silenceTimeout_fired s)"
| gated_stopRecording: "gated s \<Longrightarrow> gated (stopRecording s)"
| gated_dataavailable: "gated s \<Longrightarrow> gated (recorder_ondataavailable sz s)"
| gated_onstop: "gated s \<Longrightarrow> gated (recorder_onstop mt s)"
| gated_onstop_resumed: "gated s \<Longrightarrow> gated (recorder_onstop_resumed s)"
| gated_onerror: "gated s \<Longrightarrow> gated (recorder_onerror s)"
| gated_suspended: "gated s \<Longrightarrow> gated (context_suspended s)"

definition live_implies_listening :: "hook \<Rightarrow> bool" where
  "live_implies_listening s = (isRecording s \<and> recorder_active s \<longrightarrow> isListening s)"

subsection \<open>A platform and a session used as concrete inputs\<close>

definition browser :: platform where
  "browser = \<lparr> getUserMedia_ok = True,
               isTypeSupported = (\<lambda>t. t = ''audio/webm'' \<or> t = ''audio/mp4''),
               resume_ok = True \<rparr>"

definition browser_denying :: platform where
  "browser_denying = browser\<lparr> getUserMedia_ok := False \<rparr>"

definition quiet_props :: recorder_props where
  "quiet_props = useAudioRecorder_props preset_quiet"

text \<open>Listening after the first \<^verbatim>\<open>startListening\<close>.\<close>

definition run_listening :: hook where
  "run_listening = startListening browser initial"

text \<open>Recording after a reading of -35 dB against the threshold of -40 dB.\<close>

definition run_recording :: hook where
  "run_recording = gate quiet_props browser (Finite (- 35)) run_listening"

text \<open>One chunk of 100 bytes, a reading of -45 dB, and the silence timer fires.\<close>

definition run_short :: hook where
  "run_short = silenceTimeout_fired (gate quiet_props browser (Finite (- 45))
                 (recorder_ondataavailable 100 run_recording))"

text \<open>
  The same with one chunk of 20000 bytes, followed by the recorder's stop event: the
  consumer has been called with a segment it will post, and is awaited.
\<close>

definition run_segment :: hook where
  "run_segment = silenceTimeout_fired (gate quiet_props browser (Finite (- 45))
                   (recorder_ondataavailable 20000 run_recording))"

definition run_awaiting :: hook where
  "run_awaiting = recorder_onstop ''audio/webm'' run_segment"

text \<open>A reading of -45 dB while recording: the silence timer is pending.\<close>

definition run_silence :: hook where
  "run_silence = gate quiet_props browser (Finite (- 45)) run_recording"

text \<open>One tick on a frame of 1024 bytes of value 255 (0 dB) while listening.\<close>

definition run_tick :: hook where
  "run_tick = detectSilence quiet_props browser (replicate 1024 255) run_listening"

text \<open>
  Recording with one chunk of 20000 bytes buffered, after a reading of -45 dB: the
  silence timer is pending.
\<close>

definition run_speaking :: hook where
  "run_speaking = gate quiet_props browser (Finite (- 45))
                    (recorder_ondataavailable 20000 run_recording)"

definition page0 :: page where
  "page0 = \<lparr> processingRef = False, isProcessing = False, page_error = None, posted = [] \<rparr>"

section \<open>Properties\<close>

subsection \<open>Auxiliary facts\<close>

lemmas run_defs = run_listening_def quiet_props_def useAudioRecorder_props_def preset_quiet_def
  browser_def browser_denying_def initial_def

lemmas op_defs = startListening_def gate_def startRecording_def stopRecording_def
  silenceTimeout_fired_def recorder_ondataavailable_def recorder_onstop_def cleanup_def
  acquire_def getSupportedMimeType_def types_def Let_def stopListening_def recorder_onerror_def
  recorder_onstop_resumed_def

lemma run_listening_eval:
  "run_listening
     = \<lparr> mediaRecorder = None, isRecording = False, isListening = True, audioChunksRef = [],
         isProcessingRef = False, streamRef = Some MediaStream,
         analyserRef = Some new_analyser, silenceTimeoutRef = None,
         audioContextRef = Some Running, effects = [GetUserMedia] \<rparr>"
  by (simp add: run_defs op_defs)

lemma run_recording_eval:
  "run_recording
     = \<lparr> mediaRecorder = Some \<lparr> rstate = Recording, mimeType = ''audio/webm'' \<rparr>,
         isRecording = True, isListening = True, audioChunksRef = [],
         isProcessingRef = False, streamRef = Some MediaStream,
         analyserRef = Some new_analyser, silenceTimeoutRef = None,
         audioContextRef = Some Running,
         effects = [GetUserMedia, RecorderStart ''audio/webm'' 500] \<rparr>"
  by (simp add: run_recording_def run_listening_eval quiet_props_def useAudioRecorder_props_def
      preset_quiet_def browser_def op_defs)

lemma run_short_eval:
  "run_short
     = \<lparr> mediaRecorder = Some \<lparr> rstate = Inactive, mimeType = ''audio/webm'' \<rparr>,
         isRecording = True, isListening = True, audioChunksRef = [100],
         isProcessingRef = True, streamRef = Some MediaStream,
         analyserRef = Some new_analyser, silenceTimeoutRef = Some 800,
         audioContextRef = Some Running,
         effects = [GetUserMedia, RecorderStart ''audio/webm'' 500, RecorderStop] \<rparr>"
  by (simp add: run_short_def run_recording_eval quiet_props_def useAudioRecorder_props_def
      preset_quiet_def browser_def op_defs)

lemma run_segment_eval:
  "run_segment
     = \<lparr> mediaRecorder = Some \<lparr> rstate = Inactive, mimeType = ''audio/webm'' \<rparr>,
         isRecording = True, isListening = True, audioChunksRef = [20000],
         isProcessingRef = True, streamRef = Some MediaStream,
         analyserRef = Some new_analyser, silenceTimeoutRef = Some 800,
         audioContextRef = Some Running,
         effects = [GetUserMedia, RecorderStart ''audio/webm'' 500, RecorderStop] \<rparr>"
  by (simp add: run_segment_def run_recording_eval quiet_props_def useAudioRecorder_props_def
      preset_quiet_def browser_def op_defs)

lemma run_awaiting_eval:
  "run_awaiting
     = \<lparr> mediaRecorder = Some \<lparr> rstate = Inactive, mimeType = ''audio/webm'' \<rparr>,
         isRecording = False, isListening = True, audioChunksRef = [20000],
         isProcessingRef = True, streamRef = Some MediaStream,
         analyserRef = Some new_analyser, silenceTimeoutRef = Some 800,
         audioContextRef = Some Running,
         effects = [GetUserMedia, RecorderStart ''audio/webm'' 500, RecorderStop,
                    ConsumerCalled (Blob 20000 ''audio/webm'')] \<rparr>"
  by (simp add: run_awaiting_def run_segment_eval op_defs)

lemma quiet_props_eval: "silenceThreshold quiet_props = - 40" "silenceTimeout quiet_props = 800"
  by (simp_all add: quiet_props_def useAudioRecorder_props_def preset_quiet_def)

lemma browser_mime: "getSupportedMimeType browser = Some ''audio/webm''"
  by (simp add: getSupportedMimeType_def types_def browser_def)

lemma clear_timer:
  "(if silenceTimeoutRef s \<noteq> None then s\<lparr> silenceTimeoutRef := None \<rparr> else s)
     = s\<lparr> silenceTimeoutRef := None \<rparr>"
  by (cases s) simp

lemma gate_voice:
  "\<not> js_less dB (silenceThreshold props) \<Longrightarrow>
     gate props pf dB s =
       (let s1 = s\<lparr> silenceTimeoutRef := None \<rparr>
        in if \<not> isRecording s1 \<and> isListening s1 then startRecording pf s1 else s1)"
  unfolding gate_def clear_timer by simp

lemma gate_at_threshold:
  "silenceTimeoutRef (gate props pf (Finite (silenceThreshold props)) s) = None"
  by (simp add: gate_def startRecording_def cleanup_def acquire_def Let_def split: option.splits)

lemma gate_run_snoc:
  "gate_run props pf (dBs @ [d]) s = gate props pf d (gate_run props pf dBs s)"
  by (simp add: gate_run_def)

lemma gate_run_at_threshold:
  "\<forall>d \<in> set dBs. d = Finite (silenceThreshold props) \<Longrightarrow> silenceTimeoutRef s = None
     \<Longrightarrow> silenceTimeoutRef (gate_run props pf dBs s) = None"
proof (induction dBs rule: rev_induct)
  case Nil
  then show ?case by (simp add: gate_run_def)
next
  case (snoc d dBs)
  then have "d = Finite (silenceThreshold props)" by simp
  then show ?case by (simp only: gate_run_snoc gate_at_threshold)
qed

lemma sum_unat_le: "sum_list (map unat (xs :: 8 word list)) \<le> 255 * length xs"
proof (induction xs)
  case Nil
  show ?case by simp
next
  case (Cons x xs)
  have "unat x < 2 ^ 8" using unsigned_less [of x] by simp
  then have "unat x \<le> 255" by simp
  with Cons show ?case by simp
qed

lemma run_silence_eval:
  "run_silence = run_recording\<lparr> silenceTimeoutRef := Some 800 \<rparr>"
  by (simp add: run_silence_def run_recording_eval quiet_props_eval gate_def)

lemma run_speaking_eval:
  "run_speaking
     = \<lparr> mediaRecorder = Some \<lparr> rstate = Recording, mimeType = ''audio/webm'' \<rparr>,
         isRecording = True, isListening = True, audioChunksRef = [20000],
         isProcessingRef = False, streamRef = Some MediaStream,
         analyserRef = Some new_analyser, silenceTimeoutRef = Some 800,
         audioContextRef = Some Running,
         effects = [GetUserMedia, RecorderStart ''audio/webm'' 500] \<rparr>"
  by (simp add: run_speaking_def run_recording_eval quiet_props_eval gate_def
      recorder_ondataavailable_def)

lemma loud_frame_dB: "dB_of_frame (replicate 1024 255) = Some (Finite 0)"
  by (simp add: dB_of_frame_def average_def Math_log10_def map_replicate_const
      sum_list_replicate)

lemma run_tick_eval: "run_tick = run_recording\<lparr> effects := effects run_recording \<rparr>"
  by (simp add: run_tick_def detectSilence_def loud_frame_dB run_listening_eval run_recording_eval
      quiet_props_eval browser_mime gate_def startRecording_def Let_def)

lemma cleanup_not_recording: "\<not> isRecording (cleanup b s)"
  by (simp add: cleanup_def Let_def)

lemma cleanup_live: "live_implies_listening (cleanup b s)"
  by (simp add: live_implies_listening_def cleanup_not_recording)

lemma startRecording_listening: "isListening (startRecording pf s) = isListening s"
  by (simp add: startRecording_def cleanup_def acquire_def Let_def split: option.splits)

lemma gate_live: "live_implies_listening s \<Longrightarrow> live_implies_listening (gate props pf dB s)"
  by (auto simp add: gate_def Let_def live_implies_listening_def recorder_active_def
      startRecording_listening)

lemma detectSilence_live:
  "live_implies_listening s \<Longrightarrow> live_implies_listening (detectSilence props pf dataArray s)"
  by (simp add: detectSilence_def gate_live split: option.splits)

lemma startListening_live:
  "live_implies_listening s \<Longrightarrow> live_implies_listening (startListening pf s)"
  by (auto simp add: startListening_def live_implies_listening_def cleanup_def acquire_def Let_def)

lemma stopListening_live: "live_implies_listening (stopListening s)"
  by (auto simp add: stopListening_def live_implies_listening_def recorder_active_def Let_def
      split: option.splits)

lemma stopRecording_live:
  "live_implies_listening s \<Longrightarrow> live_implies_listening (stopRecording s)"
  by (auto simp add: stopRecording_def live_implies_listening_def recorder_active_def cleanup_def
      Let_def split: option.splits)

lemma onstop_live: "live_implies_listening (recorder_onstop mt s)"
  by (simp add: recorder_onstop_def live_implies_listening_def cleanup_def Let_def)

lemma gated_live: "gated s \<Longrightarrow> live_implies_listening s"
proof (induction rule: gated.induct)
  case gated_initial
  show ?case by (simp add: live_implies_listening_def initial_def)
next
  case (gated_startListening s pf)
  then show ?case by (simp add: startListening_live)
next
  case (gated_stopListening s)
  show ?case by (rule stopListening_live)
next
  case (gated_detectSilence s props pf dataArray)
  then show ?case by (simp add: detectSilence_live)
next
  case (gated_timeout s)
  then show ?case by (simp add: silenceTimeout_fired_def stopRecording_live)
next
  case (gated_stopRecording s)
  then show ?case by (simp add: stopRecording_live)
next
  case (gated_dataavailable s sz)
  then show ?case
    by (simp add: recorder_ondataavailable_def live_implies_listening_def recorder_active_def)
next
  case (gated_onstop s mt)
  show ?case by (rule onstop_live)
next
  case (gated_onstop_resumed s)
  show ?case by (simp add: recorder_onstop_resumed_def cleanup_live)
next
  case (gated_onerror s)
  show ?case by (simp add: recorder_onerror_def cleanup_live)
next
  case (gated_suspended s)
  then show ?case
    by (simp add: context_suspended_def live_implies_listening_def recorder_active_def
        split: option.splits context_state.splits)
qed

subsection \<open>Segments below the size floor (C1)\<close>

text \<open>
  C1, at a concrete input: a recording cycle that buffered one chunk of 100 bytes, well
  below 15000 bytes, ends with the hook calling the consumer with the 100-byte segment.
\<close>

theorem short_segment_reaches_consumer:
  "audioChunksRef run_short = [100] \<and> (100::nat) < 15000
   \<and> consumer_calls run_short = []
   \<and> consumer_calls (recorder_onstop ''audio/webm'' run_short) = [Blob 100 ''audio/webm'']"
  by (simp add: run_short_eval recorder_onstop_def consumer_calls_def Let_def)

text \<open>
  C1, amended: when a recording cycle finalizes with at least one chunk and a total size
  below 15000 bytes, the hook does call the consumer, with the concatenated segment; it
  is the consumer \<^verbatim>\<open>processAudio\<close> that returns at once on such a segment, posting
  nothing and leaving the page's state as it was.
\<close>

theorem short_segment_dropped_by_processAudio:
  "audioChunksRef s \<noteq> [] \<and> sum_list (audioChunksRef s) < 15000 \<longrightarrow>
     effects (recorder_onstop mt s)
       = effects s @ [ConsumerCalled (Blob (sum_list (audioChunksRef s)) mt)]
   \<and> processAudio (Blob (sum_list (audioChunksRef s)) mt) p = p"
  by (simp add: recorder_onstop_def processAudio_def Let_def)

theorem short_segment_dropped_by_processAudio_witness:
  "audioChunksRef run_short \<noteq> [] \<and> sum_list (audioChunksRef run_short) < 15000
   \<and> effects (recorder_onstop ''audio/webm'' run_short)
       = effects run_short @ [ConsumerCalled (Blob 100 ''audio/webm'')]
   \<and> processAudio (Blob 100 ''audio/webm'') page0 = page0"
proof -
  have c: "audioChunksRef run_short = [100]"
    by (simp add: run_short_eval)
  show ?thesis
    using short_segment_dropped_by_processAudio [of run_short "''audio/webm''" page0]
    by (simp add: c)
qed

subsection \<open>The transitions of the gate (C2)\<close>

text \<open>
  C2, at a concrete input: after a segment of 20000 bytes was ended by the silence timer,
  and while its consumer is awaited, the hook is listening and not recording (armed),
  and \<^verbatim>\<open>isProcessingRef\<close> is still set. A reading of -35 dB against the threshold of
  -40 dB then clears the timer reference and calls \<^verbatim>\<open>startRecording\<close>, which returns
  at its guard: the hook stays armed and no recorder is started.
\<close>

theorem gate_voice_while_processing_stays_armed:
  "isListening run_awaiting \<and> \<not> isRecording run_awaiting
   \<and> \<not> js_less (Finite (- 35)) (silenceThreshold quiet_props)
   \<and> gate quiet_props browser (Finite (- 35)) run_awaiting
       = run_awaiting\<lparr> silenceTimeoutRef := None \<rparr>
   \<and> \<not> isRecording (gate quiet_props browser (Finite (- 35)) run_awaiting)
   \<and> effects (gate quiet_props browser (Finite (- 35)) run_awaiting) = effects run_awaiting"
  by (simp add: run_awaiting_eval quiet_props_eval gate_def startRecording_def Let_def)

text \<open>
  C2, amended. Armed (listening, not recording) with a reading not below the threshold:
  the gate clears the timer reference and calls \<^verbatim>\<open>startRecording\<close>; this starts a
  recorder and enters Recording when no start or stop is in progress, the session's
  handles are present and a MIME type is supported, and it leaves the hook armed when
  \<^verbatim>\<open>isProcessingRef\<close> is set. Recording with a reading below the threshold: a timer
  for \<^verbatim>\<open>silenceTimeout\<close> is started if none is referenced, otherwise nothing changes.
  Recording with a reading not below the threshold: the timer is cancelled and nothing
  else changes. When the timer fires on an active recorder with no stop in progress, the
  recorder is asked to stop once, and its stop event clears the recording flag and
  keeps the listening flag; when a start or stop is in progress, the firing changes
  nothing.
\<close>

theorem gate_transitions:
  "(\<not> isRecording s \<and> isListening s \<and> \<not> js_less dB (silenceThreshold props) \<longrightarrow>
       gate props pf dB s = startRecording pf (s\<lparr> silenceTimeoutRef := None \<rparr>)
     \<and> (isProcessingRef s \<longrightarrow> gate props pf dB s = s\<lparr> silenceTimeoutRef := None \<rparr>)
     \<and> (\<not> isProcessingRef s \<and> streamRef s \<noteq> None \<and> audioContextRef s \<noteq> None
          \<and> analyserRef s \<noteq> None \<and> getSupportedMimeType pf = Some mt \<longrightarrow>
            gate props pf dB s
              = s\<lparr> silenceTimeoutRef := None,
                   effects := effects s @ [RecorderStart mt 500],
                   mediaRecorder := Some \<lparr> rstate = Recording, mimeType = mt \<rparr>,
                   isRecording := True \<rparr>))
   \<and> (isRecording s \<and> js_less dB (silenceThreshold props) \<longrightarrow>
        gate props pf dB s
          = (if silenceTimeoutRef s = None
             then s\<lparr> silenceTimeoutRef := Some (silenceTimeout props) \<rparr> else s))
   \<and> (isRecording s \<and> \<not> js_less dB (silenceThreshold props) \<longrightarrow>
        gate props pf dB s = s\<lparr> silenceTimeoutRef := None \<rparr>)
   \<and> (isRecording s \<and> mediaRecorder s = Some r \<and> rstate r \<noteq> Inactive \<and> \<not> isProcessingRef s \<longrightarrow>
        silenceTimeout_fired s
          = s\<lparr> isProcessingRef := True, mediaRecorder := Some (r\<lparr> rstate := Inactive \<rparr>),
               effects := effects s @ [RecorderStop] \<rparr>
      \<and> \<not> isRecording (recorder_onstop (mimeType r) (silenceTimeout_fired s))
      \<and> isListening (recorder_onstop (mimeType r) (silenceTimeout_fired s)) = isListening s)
   \<and> (isProcessingRef s \<longrightarrow> silenceTimeout_fired s = s)"
proof -
  note g = gate_voice [of dB props pf s]
  have a: "\<not> isRecording s \<and> isListening s \<and> \<not> js_less dB (silenceThreshold props) \<longrightarrow>
       gate props pf dB s = startRecording pf (s\<lparr> silenceTimeoutRef := None \<rparr>)"
    by (simp add: g Let_def)
  have a1: "\<not> isRecording s \<and> isListening s \<and> \<not> js_less dB (silenceThreshold props) \<longrightarrow>
       (isProcessingRef s \<longrightarrow> gate props pf dB s = s\<lparr> silenceTimeoutRef := None \<rparr>)"
    by (simp add: g Let_def startRecording_def)
  have a2: "\<not> isRecording s \<and> isListening s \<and> \<not> js_less dB (silenceThreshold props) \<longrightarrow>
     (\<not> isProcessingRef s \<and> streamRef s \<noteq> None \<and> audioContextRef s \<noteq> None
          \<and> analyserRef s \<noteq> None \<and> getSupportedMimeType pf = Some mt \<longrightarrow>
            gate props pf dB s
              = s\<lparr> silenceTimeoutRef := None,
                   effects := effects s @ [RecorderStart mt 500],
                   mediaRecorder := Some \<lparr> rstate = Recording, mimeType = mt \<rparr>,
                   isRecording := True \<rparr>)"
    using g by (cases s) (auto simp add: Let_def startRecording_def)
  have b: "isRecording s \<and> js_less dB (silenceThreshold props) \<longrightarrow>
        gate props pf dB s
          = (if silenceTimeoutRef s = None
             then s\<lparr> silenceTimeoutRef := Some (silenceTimeout props) \<rparr> else s)"
    by (simp add: gate_def)
  have c: "isRecording s \<and> \<not> js_less dB (silenceThreshold props) \<longrightarrow>
        gate props pf dB s = s\<lparr> silenceTimeoutRef := None \<rparr>"
    by (simp add: g Let_def)
  have d: "isRecording s \<and> mediaRecorder s = Some r \<and> rstate r \<noteq> Inactive \<and> \<not> isProcessingRef s \<longrightarrow>
        silenceTimeout_fired s
          = s\<lparr> isProcessingRef := True, mediaRecorder := Some (r\<lparr> rstate := Inactive \<rparr>),
               effects := effects s @ [RecorderStop] \<rparr>
      \<and> \<not> isRecording (recorder_onstop (mimeType r) (silenceTimeout_fired s))
      \<and> isListening (recorder_onstop (mimeType r) (silenceTimeout_fired s)) = isListening s"
    by (simp add: silenceTimeout_fired_def stopRecording_def recorder_onstop_def cleanup_def Let_def)
  have e: "isProcessingRef s \<longrightarrow> silenceTimeout_fired s = s"
    by (simp add: silenceTimeout_fired_def stopRecording_def)
  show ?thesis using a a1 a2 b c d e by blast
qed

theorem gate_transitions_witness:
  "\<not> isRecording run_listening \<and> isListening run_listening
   \<and> \<not> js_less (Finite (- 35)) (silenceThreshold quiet_props)
   \<and> \<not> isProcessingRef run_listening
   \<and> getSupportedMimeType browser = Some ''audio/webm''
   \<and> isRecording (gate quiet_props browser (Finite (- 35)) run_listening)
   \<and> effects (gate quiet_props browser (Finite (- 35)) run_listening)
       = effects run_listening @ [RecorderStart ''audio/webm'' 500]
   \<and> isRecording run_recording \<and> js_less (Finite (- 45)) (silenceThreshold quiet_props)
   \<and> silenceTimeoutRef run_recording = None
   \<and> silenceTimeoutRef (gate quiet_props browser (Finite (- 45)) run_recording) = Some 800
   \<and> isRecording run_silence
   \<and> gate quiet_props browser (Finite (- 45)) run_silence = run_silence
   \<and> gate quiet_props browser (Finite (- 35)) run_silence = run_recording
   \<and> \<not> isProcessingRef run_silence
   \<and> effects (silenceTimeout_fired run_silence) = effects run_silence @ [RecorderStop]
   \<and> \<not> isRecording (recorder_onstop ''audio/webm'' (silenceTimeout_fired run_silence))
   \<and> isListening (recorder_onstop ''audio/webm'' (silenceTimeout_fired run_silence))
   \<and> isProcessingRef run_awaiting \<and> silenceTimeout_fired run_awaiting = run_awaiting"
proof -
  let ?r = "\<lparr> rstate = Recording, mimeType = ''audio/webm'' \<rparr>"
  have l: "\<not> isRecording run_listening" "isListening run_listening"
    "\<not> isProcessingRef run_listening" "streamRef run_listening \<noteq> None"
    "audioContextRef run_listening \<noteq> None" "analyserRef run_listening \<noteq> None"
    by (simp_all add: run_listening_eval)
  have v: "\<not> js_less (Finite (- 35)) (silenceThreshold quiet_props)"
    and q: "js_less (Finite (- 45)) (silenceThreshold quiet_props)"
    and to: "silenceTimeout quiet_props = 800"
    by (simp_all add: quiet_props_eval)
  have r: "isRecording run_recording" "silenceTimeoutRef run_recording = None"
    by (simp_all add: run_recording_eval)
  have s: "isRecording run_silence" "\<not> isProcessingRef run_silence"
    "mediaRecorder run_silence = Some ?r" "rstate ?r \<noteq> Inactive" "mimeType ?r = ''audio/webm''"
    "silenceTimeoutRef run_silence \<noteq> None" "isListening run_silence"
    by (simp_all add: run_silence_eval run_recording_eval)
  have w: "isProcessingRef run_awaiting" by (simp add: run_awaiting_eval)
  have f1: "gate quiet_props browser (Finite (- 35)) run_listening
      = run_listening\<lparr> silenceTimeoutRef := None,
           effects := effects run_listening @ [RecorderStart ''audio/webm'' 500],
           mediaRecorder := Some ?r, isRecording := True \<rparr>"
    using gate_transitions [of run_listening "Finite (- 35)" quiet_props browser "''audio/webm''"]
      l v browser_mime by blast
  have f2: "gate quiet_props browser (Finite (- 45)) run_recording
      = run_recording\<lparr> silenceTimeoutRef := Some 800 \<rparr>"
    using gate_transitions [of run_recording "Finite (- 45)" quiet_props browser]
      r q to by simp
  have f3: "gate quiet_props browser (Finite (- 45)) run_silence = run_silence"
    using gate_transitions [of run_silence "Finite (- 45)" quiet_props browser]
      s q by simp
  have f4: "gate quiet_props browser (Finite (- 35)) run_silence
      = run_silence\<lparr> silenceTimeoutRef := None \<rparr>"
    using gate_transitions [of run_silence "Finite (- 35)" quiet_props browser]
      s v by blast
  have f5: "silenceTimeout_fired run_silence
          = run_silence\<lparr> isProcessingRef := True, mediaRecorder := Some (?r\<lparr> rstate := Inactive \<rparr>),
               effects := effects run_silence @ [RecorderStop] \<rparr>
      \<and> \<not> isRecording (recorder_onstop (mimeType ?r) (silenceTimeout_fired run_silence))
      \<and> isListening (recorder_onstop (mimeType ?r) (silenceTimeout_fired run_silence))
          = isListening run_silence"
    using gate_transitions [of run_silence _ _ _ _ ?r] s by blast
  have f6: "silenceTimeout_fired run_awaiting = run_awaiting"
    using gate_transitions [of run_awaiting] w by blast
  have f4b: "run_silence\<lparr> silenceTimeoutRef := None \<rparr> = run_recording"
    by (simp add: run_silence_eval run_recording_eval)
  have c1: "isRecording (gate quiet_props browser (Finite (- 35)) run_listening)"
    and c2: "effects (gate quiet_props browser (Finite (- 35)) run_listening)
       = effects run_listening @ [RecorderStart ''audio/webm'' 500]"
    by (simp_all only: f1) simp_all
  have c3: "silenceTimeoutRef (gate quiet_props browser (Finite (- 45)) run_recording) = Some 800"
    by (simp only: f2) simp
  have c4: "gate quiet_props browser (Finite (- 35)) run_silence = run_recording"
    by (simp only: f4 f4b)
  have c5: "effects (silenceTimeout_fired run_silence) = effects run_silence @ [RecorderStop]"
    using f5 by simp
  have c6: "\<not> isRecording (recorder_onstop ''audio/webm'' (silenceTimeout_fired run_silence))"
    and c7: "isListening (recorder_onstop ''audio/webm'' (silenceTimeout_fired run_silence))"
    using f5 s(7) unfolding s(5) by blast+
  show ?thesis
    using l(1,2,3) v q r s(1,2) w browser_mime c1 c2 c3 f3 c4 c5 c6 c7 f6 by blast
qed

subsection \<open>The tie at the threshold (C3)\<close>

text \<open>
  C3: the gate takes its silence branch exactly when the reading is below the threshold.
  While armed, a finite reading starts a recording attempt iff it is at or above the
  threshold; while recording without a timer, it starts the silence timer iff it is below
  the threshold. A reading equal to the threshold never leaves a timer behind, and along
  a run of readings that all equal the threshold, begun without a timer, no timer is
  ever started.
\<close>

theorem threshold_reading_is_voice:
  "(\<not> js_less (Finite t) t)
   \<and> (js_less (Finite x) t \<longleftrightarrow> x < t)
   \<and> (\<not> isRecording s \<and> isListening s \<longrightarrow>
        gate props pf (Finite x) s
          = (if x \<ge> silenceThreshold props
             then startRecording pf (s\<lparr> silenceTimeoutRef := None \<rparr>)
             else s))
   \<and> (isRecording s \<and> silenceTimeoutRef s = None \<longrightarrow>
        gate props pf (Finite x) s
          = (if x < silenceThreshold props
             then s\<lparr> silenceTimeoutRef := Some (silenceTimeout props) \<rparr>
             else s))
   \<and> silenceTimeoutRef (gate props pf (Finite (silenceThreshold props)) s) = None
   \<and> ((\<forall>d \<in> set dBs. d = Finite (silenceThreshold props)) \<and> silenceTimeoutRef s = None \<longrightarrow>
        (\<forall>n. silenceTimeoutRef (gate_run props pf (take n dBs) s) = None))"
proof -
  have a: "\<not> isRecording s \<and> isListening s \<longrightarrow>
        gate props pf (Finite x) s
          = (if x \<ge> silenceThreshold props
             then startRecording pf (s\<lparr> silenceTimeoutRef := None \<rparr>)
             else s)"
    unfolding gate_def Let_def clear_timer by (simp add: not_less)
  have b: "isRecording s \<and> silenceTimeoutRef s = None \<longrightarrow>
        gate props pf (Finite x) s
          = (if x < silenceThreshold props
             then s\<lparr> silenceTimeoutRef := Some (silenceTimeout props) \<rparr>
             else s)"
    by (simp add: gate_def Let_def)
  have c: "(\<forall>d \<in> set dBs. d = Finite (silenceThreshold props)) \<and> silenceTimeoutRef s = None \<longrightarrow>
        (\<forall>n. silenceTimeoutRef (gate_run props pf (take n dBs) s) = None)"
  proof (intro impI allI)
    fix n
    assume h: "(\<forall>d \<in> set dBs. d = Finite (silenceThreshold props)) \<and> silenceTimeoutRef s = None"
    then have "\<forall>d \<in> set (take n dBs). d = Finite (silenceThreshold props)"
      by (meson in_set_takeD)
    with h show "silenceTimeoutRef (gate_run props pf (take n dBs) s) = None"
      by (simp only: gate_run_at_threshold)
  qed
  show ?thesis using a b c gate_at_threshold [of props pf s] by simp
qed

theorem threshold_reading_is_voice_witness:
  "Finite (- 40) = Finite (silenceThreshold quiet_props)
   \<and> silenceTimeoutRef run_recording = None \<and> isRecording run_recording
   \<and> silenceTimeoutRef
        (gate_run quiet_props browser [Finite (- 40), Finite (- 40), Finite (- 40)] run_recording)
       = None
   \<and> gate quiet_props browser (Finite (- 40)) run_recording = run_recording
   \<and> \<not> isRecording run_listening \<and> isListening run_listening
   \<and> isRecording (gate quiet_props browser (Finite (- 40)) run_listening)"
proof -
  let ?dBs = "[Finite (- 40), Finite (- 40), Finite (- 40)]"
  have t: "silenceThreshold quiet_props = - 40" by (simp add: quiet_props_eval)
  have r: "silenceTimeoutRef run_recording = None" "isRecording run_recording"
    by (simp_all add: run_recording_eval)
  have l: "\<not> isRecording run_listening" "isListening run_listening"
    by (simp_all add: run_listening_eval)
  note th = threshold_reading_is_voice [of "- 40" "- 40" run_recording quiet_props browser ?dBs]
  from th have "\<forall>n. silenceTimeoutRef (gate_run quiet_props browser (take n ?dBs) run_recording) = None"
    using t r by simp
  from this [rule_format, of 3]
  have seq: "silenceTimeoutRef (gate_run quiet_props browser ?dBs run_recording) = None"
    by simp
  from th have g: "gate quiet_props browser (Finite (- 40)) run_recording = run_recording"
    using t r by simp
  have g2: "isRecording (gate quiet_props browser (Finite (- 40)) run_listening)"
    by (simp add: run_listening_eval quiet_props_eval browser_mime gate_def startRecording_def
        Let_def)
  show ?thesis using t r l seq g g2 by simp
qed

subsection \<open>The loudness of a frame (C4)\<close>

text \<open>
  C4, at a concrete input: on a frame of 1024 zero bytes the loudness is
  \<^verbatim>\<open>-Infinity\<close>, not a floor of -90 dB.
\<close>

theorem silent_frame_is_neg_infinity:
  "dB_of_frame (replicate 1024 0) = Some NegInfinity
   \<and> dB_of_frame (replicate 1024 0) \<noteq> Some (Finite (- 90))"
  by (simp add: dB_of_frame_def average_def Math_log10_def map_replicate_const
      sum_list_replicate)

text \<open>
  C4, amended: on a non-empty frame of bytes the loudness is
  \<^verbatim>\<open>20 * log10(mean / 255)\<close>. When the mean is 0 this is \<^verbatim>\<open>-Infinity\<close> (there is no
  clamp); otherwise it is finite, at most 0 dB and at least
  \<^verbatim>\<open>20 * log10(1 / (255 * length))\<close>, which for 1024 bins lies below -90 dB.
\<close>

theorem dB_of_frame_range:
  "dataArray \<noteq> [] \<longrightarrow>
     (sum_list (map unat dataArray) = 0 \<longrightarrow> dB_of_frame dataArray = Some NegInfinity)
   \<and> (sum_list (map unat dataArray) > 0 \<longrightarrow>
        dB_of_frame dataArray
          = Some (Finite (20 * log 10
               (real (sum_list (map unat dataArray)) / real (length dataArray) / 255)))
      \<and> 20 * log 10 (1 / (255 * real (length dataArray)))
          \<le> 20 * log 10 (real (sum_list (map unat dataArray)) / real (length dataArray) / 255)
      \<and> 20 * log 10 (real (sum_list (map unat dataArray)) / real (length dataArray) / 255)
          \<le> 0)
   \<and> 20 * log 10 (1 / (255 * real (1024::nat))) < - 90"
proof (intro impI)
  assume ne: "dataArray \<noteq> []"
  let ?n = "length dataArray"
  let ?t = "sum_list (map unat dataArray)"
  let ?q = "real ?t / real ?n / 255"
  have n: "0 < ?n" using ne by simp
  have av: "average dataArray = Some (real ?t / real ?n)"
    using ne by (simp add: average_def)
  have db: "dB_of_frame dataArray = Some (js_times 20 (Math_log10 ?q))"
    by (simp add: dB_of_frame_def av)
  have zero: "dB_of_frame dataArray = Some NegInfinity" if "?t = 0"
  proof -
    have "?q = 0" unfolding that by simp
    then show ?thesis by (simp only: db Math_log10_def) simp
  qed
  have pos: "dB_of_frame dataArray = Some (Finite (20 * log 10 ?q))
           \<and> 20 * log 10 (1 / (255 * real ?n)) \<le> 20 * log 10 ?q
           \<and> 20 * log 10 ?q \<le> 0" if t: "0 < ?t"
  proof -
    have qpos: "0 < ?q" using t n by simp
    have le: "real ?t \<le> 255 * real ?n"
      using sum_unat_le [of dataArray] by (metis of_nat_le_iff of_nat_mult of_nat_numeral)
    have q1: "?q \<le> 1" using le n by (simp add: field_simps)
    have "1 \<le> real ?t" using t by simp
    then have lo: "1 / (255 * real ?n) \<le> ?q" using n by (simp add: field_simps)
    have lopos: "0 < 1 / (255 * real ?n)" using n by simp
    have nn: "\<not> ?q < 0" and nz: "?q \<noteq> 0" using qpos by linarith+
    have a: "dB_of_frame dataArray = Some (Finite (20 * log 10 ?q))"
      by (simp only: db Math_log10_def nn nz if_False js_times.simps)
    have b: "log 10 (1 / (255 * real ?n)) \<le> log 10 ?q"
      using lo lopos qpos by (simp only: log_le_cancel_iff [of 10])
    have c: "log 10 ?q \<le> 0"
      using q1 qpos by (metis log_le_zero_cancel_iff one_less_numeral_iff semiring_norm(76))
    show ?thesis using a b c by simp
  qed
  have floor: "20 * log 10 (1 / (255 * real (1024::nat))) < - 90"
  proof -
    have p9: "log 10 ((10::real) ^ 9) = 9"
      using log_nat_power [of 10 10 9] by simp
    have p2: "log 10 ((261120::real) ^ 2) = 2 * log 10 261120"
      using log_nat_power [of 261120 10 2] by simp
    have "(10::real) ^ 9 < 261120 ^ 2" by simp
    then have "log 10 ((10::real) ^ 9) < log 10 (261120 ^ 2)"
      by (subst log_less_cancel_iff) simp_all
    then have "9 < 2 * log 10 (261120::real)"
      by (simp only: p9 p2)
    moreover have "log 10 (1 / (261120::real)) = - log 10 261120"
      by (simp add: log_divide)
    ultimately have "20 * log 10 (1 / (261120::real)) < - 90" by simp
    then show ?thesis by simp
  qed
  show "(?t = 0 \<longrightarrow> dB_of_frame dataArray = Some NegInfinity)
      \<and> (?t > 0 \<longrightarrow>
           dB_of_frame dataArray = Some (Finite (20 * log 10 ?q))
         \<and> 20 * log 10 (1 / (255 * real ?n)) \<le> 20 * log 10 ?q
         \<and> 20 * log 10 ?q \<le> 0)
      \<and> 20 * log 10 (1 / (255 * real (1024::nat))) < - 90"
    using zero pos floor by blast
qed

theorem dB_of_frame_range_witness:
  "replicate 1024 (255 :: 8 word) \<noteq> []
   \<and> sum_list (map unat (replicate 1024 (255 :: 8 word))) > 0
   \<and> dB_of_frame (replicate 1024 255) = Some (Finite 0)
   \<and> replicate 1024 (0 :: 8 word) \<noteq> []
   \<and> sum_list (map unat (replicate 1024 (0 :: 8 word))) = 0
   \<and> dB_of_frame (replicate 1024 0) = Some NegInfinity"
proof -
  have n1: "replicate 1024 (255 :: 8 word) \<noteq> []" and n0: "replicate 1024 (0 :: 8 word) \<noteq> []"
    by simp_all
  have s1: "sum_list (map unat (replicate 1024 (255 :: 8 word))) = 261120"
    by (simp add: map_replicate_const sum_list_replicate)
  have s0: "sum_list (map unat (replicate 1024 (0 :: 8 word))) = 0"
    by (simp add: map_replicate_const sum_list_replicate)
  from dB_of_frame_range [of "replicate 1024 255"] n1 s1
  have a: "dB_of_frame (replicate 1024 255) = Some (Finite 0)" by simp
  from dB_of_frame_range [of "replicate 1024 0"] n0 s0
  have b: "dB_of_frame (replicate 1024 0) = Some NegInfinity" by simp
  show ?thesis using n1 n0 s1 s0 a b by simp
qed

subsection \<open>The smoothing time constant (C5)\<close>

text \<open>
  C5, what the code does: whenever \<^verbatim>\<open>startListening\<close> builds the analysis node, the
  node's \<^verbatim>\<open>smoothingTimeConstant\<close> is 0.85, whatever the settings of the page are; with
  the preset for noisy places (0.98) the node still smooths with 0.85.
\<close>

theorem smoothing_is_fixed:
  "getUserMedia_ok pf \<and> (streamRef s = None \<or> audioContextRef s = None \<or> analyserRef s = None) \<longrightarrow>
     analyserRef (startListening pf s) = Some new_analyser
   \<and> map_option smoothingTimeConstant (analyserRef (startListening pf s)) = Some (85 / 100)"
  by (auto simp add: startListening_def acquire_def new_analyser_def Let_def)

theorem smoothing_is_fixed_witness:
  "getUserMedia_ok browser \<and> analyserRef initial = None
   \<and> vs_smoothingTimeConstant preset_noisy = 98 / 100
   \<and> map_option smoothingTimeConstant (analyserRef (startListening browser initial)) = Some (85 / 100)
   \<and> map_option smoothingTimeConstant (analyserRef (startListening browser initial))
       \<noteq> Some (vs_smoothingTimeConstant preset_noisy)"
proof -
  have h: "getUserMedia_ok browser" "analyserRef initial = None"
    by (simp_all add: browser_def initial_def)
  have n: "vs_smoothingTimeConstant preset_noisy = 98 / 100"
    by (simp add: preset_noisy_def)
  from smoothing_is_fixed [of browser initial] h
  have k: "map_option smoothingTimeConstant (analyserRef (startListening browser initial))
      = Some (85 / 100)"
    by blast
  show ?thesis by (simp only: h n k) simp
qed

subsection \<open>A second stop request while finalizing (C6)\<close>

text \<open>
  C6: when \<^verbatim>\<open>stopRecording\<close> has asked an active recorder to stop, a second
  \<^verbatim>\<open>stopRecording\<close> changes nothing: the recorder is asked to stop once, and the stop
  event that follows calls the consumer at most once, with the same result as after a
  single call. In general \<^verbatim>\<open>stopRecording\<close> is the identity while a start or stop is in
  progress.
\<close>

theorem stopRecording_twice:
  "(mediaRecorder s = Some r \<and> rstate r \<noteq> Inactive \<and> \<not> isProcessingRef s \<longrightarrow>
       effects (stopRecording s) = effects s @ [RecorderStop]
     \<and> isProcessingRef (stopRecording s)
     \<and> stopRecording (stopRecording s) = stopRecording s
     \<and> stop_requests (stopRecording (stopRecording s)) = Suc (stop_requests s)
     \<and> recorder_onstop mt (stopRecording (stopRecording s))
         = recorder_onstop mt (stopRecording s)
     \<and> length (consumer_calls (recorder_onstop mt (stopRecording (stopRecording s))))
         \<le> Suc (length (consumer_calls s)))
   \<and> (isProcessingRef s \<longrightarrow> stopRecording s = s)"
  by (simp add: stopRecording_def recorder_onstop_def Let_def consumer_calls_def
      stop_requests_def cleanup_def)

theorem stopRecording_twice_witness:
  "mediaRecorder run_recording = Some \<lparr> rstate = Recording, mimeType = ''audio/webm'' \<rparr>
   \<and> \<not> isProcessingRef run_recording
   \<and> stopRecording (stopRecording run_recording) = stopRecording run_recording
   \<and> stop_requests (stopRecording (stopRecording run_recording)) = 1
   \<and> isProcessingRef run_short \<and> stopRecording run_short = run_short"
proof -
  have m: "mediaRecorder run_recording = Some \<lparr> rstate = Recording, mimeType = ''audio/webm'' \<rparr>"
    and p: "\<not> isProcessingRef run_recording" and z: "stop_requests run_recording = 0"
    by (simp_all add: run_recording_eval stop_requests_def)
  have q: "isProcessingRef run_short" by (simp add: run_short_eval)
  have ra: "rstate \<lparr> rstate = Recording, mimeType = ''audio/webm'' \<rparr> \<noteq> Inactive" by simp
  have th: "stopRecording (stopRecording run_recording) = stopRecording run_recording
      \<and> stop_requests (stopRecording (stopRecording run_recording))
          = Suc (stop_requests run_recording)"
    using stopRecording_twice
            [of run_recording "\<lparr> rstate = Recording, mimeType = ''audio/webm'' \<rparr>"
                "''audio/webm''"] m p ra
    by blast
  have a: "stopRecording (stopRecording run_recording) = stopRecording run_recording"
    using th by blast
  have b: "stop_requests (stopRecording (stopRecording run_recording)) = 1"
  proof -
    from th have "stop_requests (stopRecording (stopRecording run_recording))
        = Suc (stop_requests run_recording)"
      by (rule conjunct2)
    then show ?thesis by (simp only: z One_nat_def)
  qed
  from stopRecording_twice [of run_short _ "''audio/webm''"] q
  have c: "stopRecording run_short = run_short" by simp
  show ?thesis using m p q a b c by simp
qed

subsection \<open>Stopping and resuming the session (C7)\<close>

text \<open>
  C7, what the code does on a listening session that holds its stream, its analyser and
  a running audio context. \<^verbatim>\<open>stopListening\<close> clears the listening flag (which ends the
  polling loop), cancels the silence timer, requests the suspension of the context and
  leaves every other cell as it was, the three handles and the chunk buffer included;
  when a recording is in progress on an active recorder it asks that recorder to stop,
  and the stop event that follows hands the buffered segment to the consumer. A
  \<^verbatim>\<open>startListening\<close> that follows makes no permission request. When it runs after the
  suspension has completed, it resumes the context. When it follows immediately, before
  the suspension has completed, it finds the context running, sets the listening flag
  and issues no resume; once the suspension completes, the hook is listening on a
  suspended context.
\<close>

theorem stopListening_then_startListening:
  "streamRef s \<noteq> None \<and> analyserRef s \<noteq> None \<and> audioContextRef s = Some Running \<longrightarrow>
     (isRecording s \<and> mediaRecorder s = Some r \<and> rstate r \<noteq> Inactive \<longrightarrow>
        stopListening s
          = s\<lparr> mediaRecorder := Some (r\<lparr> rstate := Inactive \<rparr>),
               effects := effects s @ [RecorderStop, ContextSuspend],
               isListening := False, silenceTimeoutRef := None \<rparr>
      \<and> (audioChunksRef s \<noteq> [] \<longrightarrow>
            consumer_calls (recorder_onstop (mimeType r) (stopListening s))
              = consumer_calls s @ [Blob (sum_list (audioChunksRef s)) (mimeType r)]))
   \<and> (\<not> (isRecording s \<and> recorder_active s) \<longrightarrow>
        stopListening s
          = s\<lparr> effects := effects s @ [ContextSuspend],
               isListening := False, silenceTimeoutRef := None \<rparr>)
   \<and> startListening pf (stopListening s) = (stopListening s)\<lparr> isListening := True \<rparr>
   \<and> context_suspended (startListening pf (stopListening s))
       = (stopListening s)\<lparr> isListening := True, audioContextRef := Some Suspended \<rparr>
   \<and> (resume_ok pf \<longrightarrow>
        startListening pf (context_suspended (stopListening s))
          = (stopListening s)\<lparr> audioContextRef := Some Running,
                                 effects := effects (stopListening s) @ [ContextResume],
                                 isListening := True \<rparr>)
   \<and> permission_requests (startListening pf (stopListening s)) = permission_requests s
   \<and> permission_requests (startListening pf (context_suspended (stopListening s)))
       = permission_requests s"
proof (intro impI)
  assume h: "streamRef s \<noteq> None \<and> analyserRef s \<noteq> None \<and> audioContextRef s = Some Running"
  then obtain st a where
    s: "streamRef s = Some st" "audioContextRef s = Some Running" "analyserRef s = Some a"
    by auto
  define t where "t = stopListening s"
  have rec: "isRecording s \<and> mediaRecorder s = Some r \<and> rstate r \<noteq> Inactive \<longrightarrow>
        t = s\<lparr> mediaRecorder := Some (r\<lparr> rstate := Inactive \<rparr>),
               effects := effects s @ [RecorderStop, ContextSuspend],
               isListening := False, silenceTimeoutRef := None \<rparr>"
    using s by (simp add: t_def stopListening_def Let_def)
  have fin: "isRecording s \<and> mediaRecorder s = Some r \<and> rstate r \<noteq> Inactive \<longrightarrow>
       audioChunksRef s \<noteq> [] \<longrightarrow>
            consumer_calls (recorder_onstop (mimeType r) t)
              = consumer_calls s @ [Blob (sum_list (audioChunksRef s)) (mimeType r)]"
    using s by (simp add: t_def stopListening_def recorder_onstop_def consumer_calls_def Let_def)
  have idle: "\<not> (isRecording s \<and> recorder_active s) \<longrightarrow>
        t = s\<lparr> effects := effects s @ [ContextSuspend],
               isListening := False, silenceTimeoutRef := None \<rparr>"
    using s by (auto simp add: t_def stopListening_def recorder_active_def Let_def
        split: option.splits)
  have t1: "streamRef t = Some st" "audioContextRef t = Some Running" "analyserRef t = Some a"
    using s by (simp_all add: t_def stopListening_def Let_def split: option.splits)
  have t4: "permission_requests t = permission_requests s"
    using s by (simp add: t_def stopListening_def permission_requests_def Let_def
        split: option.splits)
  have imm: "startListening pf t = t\<lparr> isListening := True \<rparr>"
    using t1 by (simp add: startListening_def)
  have late: "context_suspended (startListening pf t)
       = t\<lparr> isListening := True, audioContextRef := Some Suspended \<rparr>"
    using t1 by (simp add: imm context_suspended_def)
  have sib: "resume_ok pf \<longrightarrow>
        startListening pf (context_suspended t)
          = t\<lparr> audioContextRef := Some Running, effects := effects t @ [ContextResume],
               isListening := True \<rparr>"
    using t1 by (simp add: context_suspended_def startListening_def)
  have p1: "permission_requests (startListening pf t) = permission_requests s"
    using t4 by (simp add: imm permission_requests_def)
  have p2: "permission_requests (startListening pf (context_suspended t)) = permission_requests s"
    using t1 t4
    by (simp add: context_suspended_def startListening_def permission_requests_def cleanup_def
        Let_def)
  show "(isRecording s \<and> mediaRecorder s = Some r \<and> rstate r \<noteq> Inactive \<longrightarrow>
        stopListening s
          = s\<lparr> mediaRecorder := Some (r\<lparr> rstate := Inactive \<rparr>),
               effects := effects s @ [RecorderStop, ContextSuspend],
               isListening := False, silenceTimeoutRef := None \<rparr>
      \<and> (audioChunksRef s \<noteq> [] \<longrightarrow>
            consumer_calls (recorder_onstop (mimeType r) (stopListening s))
              = consumer_calls s @ [Blob (sum_list (audioChunksRef s)) (mimeType r)]))
   \<and> (\<not> (isRecording s \<and> recorder_active s) \<longrightarrow>
        stopListening s
          = s\<lparr> effects := effects s @ [ContextSuspend],
               isListening := False, silenceTimeoutRef := None \<rparr>)
   \<and> startListening pf (stopListening s) = (stopListening s)\<lparr> isListening := True \<rparr>
   \<and> context_suspended (startListening pf (stopListening s))
       = (stopListening s)\<lparr> isListening := True, audioContextRef := Some Suspended \<rparr>
   \<and> (resume_ok pf \<longrightarrow>
        startListening pf (context_suspended (stopListening s))
          = (stopListening s)\<lparr> audioContextRef := Some Running,
                                 effects := effects (stopListening s) @ [ContextResume],
                                 isListening := True \<rparr>)
   \<and> permission_requests (startListening pf (stopListening s)) = permission_requests s
   \<and> permission_requests (startListening pf (context_suspended (stopListening s)))
       = permission_requests s"
    using rec fin idle imm late sib p1 p2 unfolding t_def by blast
qed

theorem stopListening_then_startListening_witness:
  "streamRef run_speaking \<noteq> None \<and> analyserRef run_speaking \<noteq> None
   \<and> audioContextRef run_speaking = Some Running
   \<and> isRecording run_speaking
   \<and> mediaRecorder run_speaking = Some \<lparr> rstate = Recording, mimeType = ''audio/webm'' \<rparr>
   \<and> audioChunksRef run_speaking \<noteq> [] \<and> resume_ok browser
   \<and> effects (stopListening run_speaking)
       = [GetUserMedia, RecorderStart ''audio/webm'' 500, RecorderStop, ContextSuspend]
   \<and> \<not> isListening (stopListening run_speaking)
   \<and> silenceTimeoutRef (stopListening run_speaking) = None
   \<and> audioChunksRef (stopListening run_speaking) = [20000]
   \<and> consumer_calls (recorder_onstop ''audio/webm'' (stopListening run_speaking))
       = [Blob 20000 ''audio/webm'']
   \<and> effects (startListening browser (stopListening run_speaking))
       = [GetUserMedia, RecorderStart ''audio/webm'' 500, RecorderStop, ContextSuspend]
   \<and> isListening (context_suspended (startListening browser (stopListening run_speaking)))
   \<and> audioContextRef (context_suspended (startListening browser (stopListening run_speaking)))
       = Some Suspended
   \<and> effects (startListening browser (context_suspended (stopListening run_speaking)))
       = [GetUserMedia, RecorderStart ''audio/webm'' 500, RecorderStop, ContextSuspend,
          ContextResume]
   \<and> audioContextRef (startListening browser (context_suspended (stopListening run_speaking)))
       = Some Running
   \<and> permission_requests (startListening browser (stopListening run_speaking)) = 1"
proof -
  let ?r = "\<lparr> rstate = Recording, mimeType = ''audio/webm'' \<rparr>"
  have e: "streamRef run_speaking \<noteq> None" "analyserRef run_speaking \<noteq> None"
    "audioContextRef run_speaking = Some Running" "isRecording run_speaking"
    "mediaRecorder run_speaking = Some ?r" "rstate ?r \<noteq> Inactive"
    "audioChunksRef run_speaking \<noteq> []"
    by (simp_all add: run_speaking_eval)
  have v: "effects run_speaking = [GetUserMedia, RecorderStart ''audio/webm'' 500]"
    "audioChunksRef run_speaking = [20000]" "consumer_calls run_speaking = []"
    "permission_requests run_speaking = 1" "mimeType ?r = ''audio/webm''"
    by (simp_all add: run_speaking_eval consumer_calls_def permission_requests_def)
  have b: "resume_ok browser" by (simp add: browser_def)
  note th = stopListening_then_startListening [of run_speaking ?r browser]
  have st: "stopListening run_speaking
      = run_speaking\<lparr> mediaRecorder := Some (?r\<lparr> rstate := Inactive \<rparr>),
           effects := effects run_speaking @ [RecorderStop, ContextSuspend],
           isListening := False, silenceTimeoutRef := None \<rparr>"
    using th e by blast
  have fin: "consumer_calls (recorder_onstop (mimeType ?r) (stopListening run_speaking))
      = consumer_calls run_speaking @ [Blob (sum_list (audioChunksRef run_speaking)) (mimeType ?r)]"
    using th e by blast
  have imm: "startListening browser (stopListening run_speaking)
      = (stopListening run_speaking)\<lparr> isListening := True \<rparr>"
    using th e by blast
  have late: "context_suspended (startListening browser (stopListening run_speaking))
      = (stopListening run_speaking)\<lparr> isListening := True, audioContextRef := Some Suspended \<rparr>"
    using th e by blast
  have sib: "startListening browser (context_suspended (stopListening run_speaking))
      = (stopListening run_speaking)
          \<lparr> audioContextRef := Some Running,
            effects := effects (stopListening run_speaking) @ [ContextResume],
            isListening := True \<rparr>"
    using th e b by blast
  have p: "permission_requests (startListening browser (stopListening run_speaking))
      = permission_requests run_speaking"
    using th e by blast
  have c1: "effects (stopListening run_speaking)
       = [GetUserMedia, RecorderStart ''audio/webm'' 500, RecorderStop, ContextSuspend]"
    and c2: "\<not> isListening (stopListening run_speaking)"
    and c3: "silenceTimeoutRef (stopListening run_speaking) = None"
    and c4: "audioChunksRef (stopListening run_speaking) = [20000]"
    by (simp_all add: st v)
  have c5: "consumer_calls (recorder_onstop ''audio/webm'' (stopListening run_speaking))
       = [Blob 20000 ''audio/webm'']"
    using fin by (simp add: v)
  have c6: "effects (startListening browser (stopListening run_speaking))
       = [GetUserMedia, RecorderStart ''audio/webm'' 500, RecorderStop, ContextSuspend]"
    by (simp add: imm c1)
  have c7: "isListening (context_suspended (startListening browser (stopListening run_speaking)))"
    and c8: "audioContextRef (context_suspended (startListening browser (stopListening run_speaking)))
       = Some Suspended"
    by (simp_all add: late)
  have c9: "effects (startListening browser (context_suspended (stopListening run_speaking)))
       = [GetUserMedia, RecorderStart ''audio/webm'' 500, RecorderStop, ContextSuspend,
          ContextResume]"
    and c10: "audioContextRef (startListening browser (context_suspended (stopListening run_speaking)))
       = Some Running"
    by (simp_all add: sib c1)
  have c11: "permission_requests (startListening browser (stopListening run_speaking)) = 1"
    using p by (simp add: v)
  show ?thesis
    using e(1,2,3,4,5,7) b c1 c2 c3 c4 c5 c6 c7 c8 c9 c10 c11 by blast
qed

subsection \<open>An encoder error (C8)\<close>

text \<open>
  C8, at a concrete input: an encoder error during a recording closes the context and
  stops the tracks, and hands no rejection to any caller, whereas a refused device
  acquisition in \<^verbatim>\<open>startListening\<close> is rejected to its caller.
\<close>

theorem encoder_error_not_reported:
  "isRecording run_recording
   \<and> effects (recorder_onerror run_recording) = effects run_recording @ [ContextClosed, TracksStopped]
   \<and> rejections (recorder_onerror run_recording) = []
   \<and> rejections (startListening browser_denying initial) = [DeviceAcquisitionError]"
  by (simp add: run_recording_eval recorder_onerror_def cleanup_def rejections_def Let_def
      startListening_def browser_denying_def browser_def initial_def)

text \<open>
  C8, amended: an encoder error tears the session down (the context is closed, the
  tracks are stopped, the stream, context, analyser and recorder cells are cleared, the
  timer is cancelled, the recording and processing flags are reset), and the error
  handler empties the chunk buffer without calling the consumer; the caller is not
  notified: no rejection is added.
\<close>

theorem recorder_onerror_teardown:
  "streamRef (recorder_onerror s) = None
   \<and> audioContextRef (recorder_onerror s) = None
   \<and> analyserRef (recorder_onerror s) = None
   \<and> mediaRecorder (recorder_onerror s) = None
   \<and> silenceTimeoutRef (recorder_onerror s) = None
   \<and> \<not> isRecording (recorder_onerror s)
   \<and> \<not> isProcessingRef (recorder_onerror s)
   \<and> audioChunksRef (recorder_onerror s) = []
   \<and> effects (recorder_onerror s)
       = effects s @ (if audioContextRef s \<noteq> None then [ContextClosed] else [])
                   @ (if streamRef s \<noteq> None then [TracksStopped] else [])
   \<and> consumer_calls (recorder_onerror s) = consumer_calls s
   \<and> rejections (recorder_onerror s) = rejections s"
  by (simp add: recorder_onerror_def cleanup_def Let_def consumer_calls_def rejections_def)

theorem recorder_onerror_teardown_witness:
  "audioChunksRef run_short = [100] \<and> streamRef run_short = Some MediaStream
   \<and> audioContextRef run_short = Some Running
   \<and> streamRef (recorder_onerror run_short) = None
   \<and> audioContextRef (recorder_onerror run_short) = None
   \<and> analyserRef (recorder_onerror run_short) = None
   \<and> mediaRecorder (recorder_onerror run_short) = None
   \<and> audioChunksRef (recorder_onerror run_short) = []
   \<and> effects (recorder_onerror run_short) = effects run_short @ [ContextClosed, TracksStopped]
   \<and> consumer_calls (recorder_onerror run_short) = []
   \<and> rejections (recorder_onerror run_short) = []"
proof -
  have e: "audioChunksRef run_short = [100]" "streamRef run_short = Some MediaStream"
    "audioContextRef run_short = Some Running" "consumer_calls run_short = []"
    "rejections run_short = []"
    by (simp_all add: run_short_eval consumer_calls_def rejections_def)
  show ?thesis
    using recorder_onerror_teardown [of run_short] e by simp
qed

text \<open>
  Data that the encoder delivers after its error is buffered again, and the stop event
  that follows hands it to the consumer.
\<close>

lemma chunk_after_onerror_is_forwarded:
  "sz > 0 \<Longrightarrow>
     consumer_calls (recorder_onstop mt (recorder_ondataavailable sz (recorder_onerror s)))
       = consumer_calls s @ [Blob sz mt]"
  by (simp add: recorder_onerror_def recorder_ondataavailable_def recorder_onstop_def cleanup_def
      Let_def consumer_calls_def)

subsection \<open>Recording and listening (C9)\<close>

text \<open>
  C9, at a concrete input: a direct call of \<^verbatim>\<open>startRecording\<close> on the initial state
  sets the recording flag while the listening flag is false.
\<close>

theorem direct_startRecording_without_listening:
  "isRecording (startRecording browser initial) \<and> \<not> isListening (startRecording browser initial)"
proof -
  have g: "getUserMedia_ok browser" by (simp add: browser_def)
  show ?thesis
    by (simp add: initial_def startRecording_def browser_mime g acquire_def Let_def)
qed

text \<open>
  C9, amended: in every state reached by operations and handlers of the hook in which
  \<^verbatim>\<open>startRecording\<close> is called by the gate only, a set recording flag together with a
  recorder that has not been asked to stop implies that the listening flag is set.
\<close>

theorem gated_recording_implies_listening:
  "gated s \<Longrightarrow> isRecording s \<Longrightarrow> recorder_active s \<Longrightarrow> isListening s"
  using gated_live [of s] by (simp add: live_implies_listening_def)

theorem gated_recording_implies_listening_witness:
  "gated run_tick \<and> isRecording run_tick \<and> recorder_active run_tick \<and> isListening run_tick"
proof -
  have g: "gated run_tick"
    unfolding run_tick_def run_listening_def by (intro gated.intros)
  have r: "isRecording run_tick" "recorder_active run_tick"
    by (simp_all add: run_tick_eval run_recording_eval recorder_active_def)
  from gated_recording_implies_listening [OF g r] g r show ?thesis by simp
qed

subsection \<open>A recording cycle without data (C10)\<close>

text \<open>
  C10: when the recorder's stop event finds the chunk buffer empty, the consumer is not
  called (the effect log is unchanged), and the partial cleanup runs: the recording flag,
  the recorder cell, the chunk buffer, the processing flag and the silence timer are
  reset, while the stream, the audio context, the analyser and the listening flag are
  kept.
\<close>

theorem onstop_without_chunks:
  "audioChunksRef s = [] \<longrightarrow>
     effects (recorder_onstop mt s) = effects s
   \<and> consumer_calls (recorder_onstop mt s) = consumer_calls s
   \<and> \<not> isRecording (recorder_onstop mt s)
   \<and> audioChunksRef (recorder_onstop mt s) = []
   \<and> mediaRecorder (recorder_onstop mt s) = None
   \<and> \<not> isProcessingRef (recorder_onstop mt s)
   \<and> silenceTimeoutRef (recorder_onstop mt s) = None
   \<and> streamRef (recorder_onstop mt s) = streamRef s
   \<and> audioContextRef (recorder_onstop mt s) = audioContextRef s
   \<and> analyserRef (recorder_onstop mt s) = analyserRef s
   \<and> isListening (recorder_onstop mt s) = isListening s"
  by (simp add: recorder_onstop_def cleanup_def Let_def consumer_calls_def)

theorem onstop_without_chunks_witness:
  "audioChunksRef run_recording = []
   \<and> effects (recorder_onstop ''audio/webm'' run_recording) = effects run_recording
   \<and> consumer_calls (recorder_onstop ''audio/webm'' run_recording) = []
   \<and> \<not> isRecording (recorder_onstop ''audio/webm'' run_recording)
   \<and> isListening (recorder_onstop ''audio/webm'' run_recording)"
proof -
  have c: "audioChunksRef run_recording = []" "isListening run_recording"
    "consumer_calls run_recording = []"
    by (simp_all add: run_recording_eval consumer_calls_def)
  show ?thesis
    using onstop_without_chunks [of run_recording "''audio/webm''"] c by simp
qed

end
